theory Spec2Isabelle
  imports Main
begin

section \<open>Data of the two flows (examples/src/mint.ts)\<close>

text \<open>
  The file holds two scripts. Each is one \<^verbatim>\<open>async\<close> function, called at once:
  the mint flow (lines 7 to 30) and the query flow (lines 33 to 45). Everything they do
  goes through the chain SDK (\<^verbatim>\<open>@cosmjs/launchpad\<close>, \<^verbatim>\<open>@cosmjs/cosmwasm-stargate\<close>,
  \<^verbatim>\<open>@cosmjs/stargate\<close>), which is not part of the repository: the SDK is a parameter of
  the model, and the objects it hands out (wallet, gas price, clients) are type
  parameters.
\<close>

text \<open>A JavaScript value thrown by an \<^verbatim>\<open>await\<close>ed call or by the language itself.\<close>

datatype error = TypeError string | Error string

text \<open>JSON values: the messages sent to the contract and the answers of a query.\<close>

datatype json =
    JNull
  | JBool bool
  | JNumber int
  | JString string
  | JArray "json list"
  | JObject "(string \<times> json) list"

text \<open>\<^verbatim>\<open>Coin\<close>: the attached funds, \<^verbatim>\<open>{ denom, amount }\<close>.\<close>

record coin =
  denom :: string
  amount :: string

text \<open>\<^verbatim>\<open>AccountData\<close>: the flow reads the \<^verbatim>\<open>address\<close> field only.\<close>

record account =
  address :: string

text \<open>\<^verbatim>\<open>ExecuteResult\<close>: the flow reads the \<^verbatim>\<open>transactionHash\<close> field only.\<close>

record execute_result =
  transactionHash :: string

text \<open>The fee argument of \<^verbatim>\<open>execute\<close>: the literal \<^verbatim>\<open>"auto"\<close> or an explicit fee.\<close>

datatype fee = Auto | StdFee "coin list" string

text \<open>
  The SDK, as the flows use it. A value of \<^verbatim>\<open>process.env\<close> that is not set is
  \<^verbatim>\<open>undefined\<close> at run time (the \<^verbatim>\<open>!\<close> of TypeScript is erased by the compiler), so
  every argument read from the environment is a \<open>string option\<close>.
  The asynchronous calls run on the world \<open>'w\<close> (the network, the chain) and return the
  world they leave; \<^verbatim>\<open>GasPrice.fromString\<close> is synchronous and pure.
\<close>

record ('w, 'wallet, 'gp, 'client, 'qclient) sdk =
  fromMnemonic :: "string option \<Rightarrow> string \<Rightarrow> 'w \<Rightarrow> (error + 'wallet) \<times> 'w"
  getAccounts :: "'wallet \<Rightarrow> 'w \<Rightarrow> (error + account list) \<times> 'w"
  gasPrice_fromString :: "string \<Rightarrow> error + 'gp"
  connectWithSigner ::
    "string option \<Rightarrow> 'wallet \<Rightarrow> 'gp \<Rightarrow> 'w \<Rightarrow> (error + 'client) \<times> 'w"
  execute ::
    "'client \<Rightarrow> string \<Rightarrow> string option \<Rightarrow> json \<Rightarrow> fee \<Rightarrow> string \<Rightarrow> coin list
       \<Rightarrow> 'w \<Rightarrow> (error + execute_result) \<times> 'w"
  connect :: "string option \<Rightarrow> 'w \<Rightarrow> (error + 'qclient) \<times> 'w"
  queryContractSmart ::
    "'qclient \<Rightarrow> string option \<Rightarrow> json \<Rightarrow> 'w \<Rightarrow> (error + json) \<times> 'w"

text \<open>The calls a flow makes to the SDK, with their arguments, in the order made.\<close>

datatype ('wallet, 'gp, 'client, 'qclient) sdk_call =
    FromMnemonic "string option" string
  | GetAccounts 'wallet
  | GasPriceFromString string
  | ConnectWithSigner "string option" 'wallet 'gp
  | Execute 'client string "string option" json fee string "coin list"
  | Connect "string option"
  | QueryContractSmart 'qclient "string option" json

text \<open>
  The state of a run: the world the SDK acts on, the SDK calls made so far (oldest
  first) and the values given to \<^verbatim>\<open>console.log\<close> (oldest first).
\<close>

record ('w, 'call) run =
  world :: 'w
  calls :: "'call list"
  stdout :: "json list"

definition init :: "'w \<Rightarrow> ('w, 'call) run" where
  "init w = \<lparr>world = w, calls = [], stdout = []\<rparr>"

section \<open>Sequencing\<close>

text \<open>
  \<open>await m k\<close>: run \<open>m\<close>; a rejection ends the flow there (neither script has a
  \<^verbatim>\<open>try\<close>/\<^verbatim>\<open>catch\<close>), a value goes to the rest \<open>k\<close> of the function.
\<close>

definition await ::
  "('s \<Rightarrow> (error + 'a) \<times> 's) \<Rightarrow> ('a \<Rightarrow> 's \<Rightarrow> (error + 'b) \<times> 's) \<Rightarrow> 's \<Rightarrow> (error + 'b) \<times> 's"
where
  "await m k s = (case m s of (Inl e, s') \<Rightarrow> (Inl e, s') | (Inr x, s') \<Rightarrow> k x s')"

text \<open>\<open>invoke c f\<close>: the SDK call \<open>c\<close>, which acts on the world as \<open>f\<close>.\<close>

definition invoke ::
  "'call \<Rightarrow> ('w \<Rightarrow> (error + 'a) \<times> 'w) \<Rightarrow> ('w, 'call) run \<Rightarrow> (error + 'a) \<times> ('w, 'call) run"
where
  "invoke c f st =
     (case f (world st) of (r, w') \<Rightarrow> (r, st\<lparr>world := w', calls := calls st @ [c]\<rparr>))"

text \<open>\<^verbatim>\<open>console.log(v)\<close>.\<close>

definition console_log :: "json \<Rightarrow> ('w, 'call) run \<Rightarrow> (error + unit) \<times> ('w, 'call) run" where
  "console_log v st = (Inr (), st\<lparr>stdout := stdout st @ [v]\<rparr>)"

text \<open>
  \<^verbatim>\<open>const [{ address }] = accounts\<close>: the first element of the array, and its
  \<^verbatim>\<open>address\<close>. On an empty array the first element is \<^verbatim>\<open>undefined\<close>, and
  destructuring \<^verbatim>\<open>undefined\<close> throws a TypeError.
\<close>

definition destructure_address :: "account list \<Rightarrow> 's \<Rightarrow> (error + string) \<times> 's" where
  "destructure_address accounts st =
     (case accounts of
        [] \<Rightarrow> (Inl (TypeError ''Cannot destructure property address of undefined''), st)
      | a # _ \<Rightarrow> (Inr (address a), st))"

section \<open>The mint flow\<close>

text \<open>The message of line 20 to 26, for the owner \<open>addr\<close>.\<close>

definition mint_msg :: "string \<Rightarrow> json" where
  "mint_msg addr =
     JObject [(''mint'', JObject [(''extension'', JObject []),
                                  (''owner'', JString addr),
                                  (''token_uri'', JString ''https://alpaca.com/alpaca.jpg'')])]"

definition mint_funds :: "coin list" where
  "mint_funds = [\<lparr>denom = ''usei'', amount = ''10000''\<rparr>]"

definition mint_flow ::
  "('w, 'wallet, 'gp, 'client, 'qclient) sdk \<Rightarrow> (string \<rightharpoonup> string)
     \<Rightarrow> ('w, ('wallet, 'gp, 'client, 'qclient) sdk_call) run
     \<Rightarrow> (error + unit) \<times> ('w, ('wallet, 'gp, 'client, 'qclient) sdk_call) run"
where
  "mint_flow sdk env =
     await (invoke (FromMnemonic (env ''PRIVATE'') ''sei'')
                   (fromMnemonic sdk (env ''PRIVATE'') ''sei'')) (\<lambda>wallet.
     await (invoke (GetAccounts wallet) (getAccounts sdk wallet)) (\<lambda>accounts.
     await (destructure_address accounts) (\<lambda>addr.
     await (invoke (GasPriceFromString ''0.1usei'')
                   (\<lambda>w. (gasPrice_fromString sdk ''0.1usei'', w))) (\<lambda>gp.
     await (invoke (ConnectWithSigner (env ''RPC'') wallet gp)
                   (connectWithSigner sdk (env ''RPC'') wallet gp)) (\<lambda>client.
     await (invoke (Execute client addr (env ''CONTRACT_ADDR'') (mint_msg addr) Auto '''' mint_funds)
                   (execute sdk client addr (env ''CONTRACT_ADDR'') (mint_msg addr) Auto ''''
                      mint_funds)) (\<lambda>result.
     console_log (JString (transactionHash result))))))))"

section \<open>The query flow\<close>

definition query_msg :: json where
  "query_msg = JObject [(''num_tokens'', JObject [])]"

definition query_flow ::
  "('w, 'wallet, 'gp, 'client, 'qclient) sdk \<Rightarrow> (string \<rightharpoonup> string)
     \<Rightarrow> ('w, ('wallet, 'gp, 'client, 'qclient) sdk_call) run
     \<Rightarrow> (error + unit) \<times> ('w, ('wallet, 'gp, 'client, 'qclient) sdk_call) run"
where
  "query_flow sdk env =
     await (invoke (Connect (env ''RPC'')) (connect sdk (env ''RPC''))) (\<lambda>client.
     await (invoke (QueryContractSmart client (env ''CONTRACT_ADDR'') query_msg)
                   (queryContractSmart sdk client (env ''CONTRACT_ADDR'') query_msg)) (\<lambda>result.
     console_log result))"

section \<open>Observations on a run\<close>

text \<open>
  The calls that reach the endpoint: the two that open a connection to it and the two
  made through a connected client. Wallet derivation and gas price parsing get neither
  the endpoint nor a client.
\<close>

fun is_network_call :: "('wallet, 'gp, 'client, 'qclient) sdk_call \<Rightarrow> bool" where
  "is_network_call (ConnectWithSigner _ _ _) = True"
| "is_network_call (Execute _ _ _ _ _ _ _) = True"
| "is_network_call (Connect _) = True"
| "is_network_call (QueryContractSmart _ _ _) = True"
| "is_network_call _ = False"

fun is_execute :: "('wallet, 'gp, 'client, 'qclient) sdk_call \<Rightarrow> bool" where
  "is_execute (Execute _ _ _ _ _ _ _) = True"
| "is_execute _ = False"

fun is_query :: "('wallet, 'gp, 'client, 'qclient) sdk_call \<Rightarrow> bool" where
  "is_query (QueryContractSmart _ _ _) = True"
| "is_query _ = False"

text \<open>An invocation of the remote contract: an execute or a query.\<close>

definition is_invocation :: "('wallet, 'gp, 'client, 'qclient) sdk_call \<Rightarrow> bool" where
  "is_invocation c = (is_execute c \<or> is_query c)"

text \<open>
  A request to an endpoint: a connect call that has an endpoint to reach, or a call made
  through a connected client. A connect call whose endpoint is \<^verbatim>\<open>undefined\<close> has
  nowhere to send anything.
\<close>

fun is_request :: "('wallet, 'gp, 'client, 'qclient) sdk_call \<Rightarrow> bool" where
  "is_request (ConnectWithSigner (Some _) _ _) = True"
| "is_request (Connect (Some _)) = True"
| "is_request (Execute _ _ _ _ _ _ _) = True"
| "is_request (QueryContractSmart _ _ _) = True"
| "is_request _ = False"

section \<open>The SDK's handling of a missing input\<close>

text \<open>
  Modelled from the spec: the chain SDK that \<^verbatim>\<open>mint.ts\<close> imports
  (\<^verbatim>\<open>Secp256k1HdWallet.fromMnemonic\<close> of \<^verbatim>\<open>@cosmjs/launchpad\<close>,
  \<^verbatim>\<open>SigningCosmWasmClient.connectWithSigner\<close> of \<^verbatim>\<open>@cosmjs/cosmwasm-stargate\<close>) is
  not part of the repository, and the script has no check of its own, so what happens to a
  missing input is decided there. The spec, section 4.1, takes the secret phrase and the
  RPC endpoint URL to be non-empty strings and lists "malformed secret phrase
  (derivation error, terminal)" and "invalid/unreachable endpoint (network error,
  terminal)"; section 7 says of a missing or malformed input: "Detected before any
  network call. Terminal". So \<open>strict_sdk derivation_error connection_error sdk\<close> is
  \<open>sdk\<close> with these two checks in front: \<^verbatim>\<open>fromMnemonic\<close> rejects an absent phrase
  and \<^verbatim>\<open>connectWithSigner\<close> rejects an absent endpoint, each with the given error and
  without touching the world. On a present phrase or endpoint it is \<open>sdk\<close>. The spec
  names no error value, so the two errors are parameters.
\<close>

definition strict_sdk ::
  "error \<Rightarrow> error \<Rightarrow> ('w, 'wallet, 'gp, 'client, 'qclient) sdk
     \<Rightarrow> ('w, 'wallet, 'gp, 'client, 'qclient) sdk"
where
  "strict_sdk derivation_error connection_error sdk = sdk\<lparr>
     fromMnemonic := (\<lambda>mnemonic prefix w.
       case mnemonic of
         None \<Rightarrow> (Inl derivation_error, w)
       | Some phrase \<Rightarrow> fromMnemonic sdk (Some phrase) prefix w),
     connectWithSigner := (\<lambda>endpoint wallet gp w.
       case endpoint of
         None \<Rightarrow> (Inl connection_error, w)
       | Some url \<Rightarrow> connectWithSigner sdk (Some url) wallet gp w)
   \<rparr>"

section \<open>A mocked SDK\<close>

text \<open>
  A test double of the SDK, for running the flows on concrete inputs. Its world counts
  the round trips to the endpoint; a wallet is its phrase, a gas price its string and a
  client its endpoint. It rejects an absent phrase, an absent endpoint and an absent
  contract identifier, as a JavaScript library that reads them as strings does.
  \<open>reachable\<close> says whether the endpoint answers, \<open>accounts\<close> is what the wallet
  holds.
\<close>

definition mock_sdk :: "bool \<Rightarrow> account list \<Rightarrow> (nat, string, string, string, string) sdk" where
  "mock_sdk reachable accounts = \<lparr>
     fromMnemonic = (\<lambda>mnemonic prefix w.
       case mnemonic of
         None \<Rightarrow> (Inl (Error ''Invalid mnemonic format''), w)
       | Some phrase \<Rightarrow> (Inr phrase, w)),
     getAccounts = (\<lambda>wallet w. (Inr accounts, w)),
     gasPrice_fromString = (\<lambda>s. Inr s),
     connectWithSigner = (\<lambda>endpoint wallet gp w.
       case endpoint of
         None \<Rightarrow> (Inl (TypeError ''endpoint is undefined''), w)
       | Some url \<Rightarrow>
           if reachable then (Inr url, Suc w) else (Inl (Error ''fetch failed''), Suc w)),
     execute = (\<lambda>client sender contract msg fee memo funds w.
       case contract of
         None \<Rightarrow> (Inl (Error ''contract address is undefined''), Suc w)
       | Some a \<Rightarrow> (Inr \<lparr>transactionHash = ''A1B2C3''\<rparr>, Suc w)),
     connect = (\<lambda>endpoint w.
       case endpoint of
         None \<Rightarrow> (Inl (TypeError ''endpoint is undefined''), w)
       | Some url \<Rightarrow>
           if reachable then (Inr url, Suc w) else (Inl (Error ''fetch failed''), Suc w)),
     queryContractSmart = (\<lambda>client contract msg w.
       case contract of
         None \<Rightarrow> (Inl (Error ''contract address is undefined''), Suc w)
       | Some a \<Rightarrow> (Inr (JObject [(''count'', JNumber 5)]), Suc w))
   \<rparr>"

definition mock_env :: "string \<rightharpoonup> string" where
  "mock_env = [''PRIVATE'' \<mapsto> ''abandon ability able'',
               ''RPC'' \<mapsto> ''http://localhost:26657'',
               ''CONTRACT_ADDR'' \<mapsto> ''sei1contract'']"

definition mock_owner :: account where
  "mock_owner = \<lparr>address = ''sei1owner''\<rparr>"

section \<open>The outcomes of a run\<close>

lemmas flow_defs = mint_flow_def query_flow_def await_def invoke_def init_def
  destructure_address_def console_log_def

lemmas mock_defs = mock_sdk_def mock_env_def mock_owner_def mint_msg_def mint_funds_def
  query_msg_def

text \<open>
  A run of the mint flow ends in one of seven ways: at the first step that fails, or
  after the transaction hash has been logged.
\<close>

lemma mint_flow_cases:
  obtains
    (derivation_fails) e w1 where
      "fromMnemonic sdk (env ''PRIVATE'') ''sei'' w0 = (Inl e, w1)"
      "mint_flow sdk env (init w0) =
         (Inl e, \<lparr>world = w1, calls = [FromMnemonic (env ''PRIVATE'') ''sei''], stdout = []\<rparr>)"
  | (accounts_fail) wallet w1 e w2 where
      "fromMnemonic sdk (env ''PRIVATE'') ''sei'' w0 = (Inr wallet, w1)"
      "getAccounts sdk wallet w1 = (Inl e, w2)"
      "mint_flow sdk env (init w0) =
         (Inl e, \<lparr>world = w2,
                   calls = [FromMnemonic (env ''PRIVATE'') ''sei'', GetAccounts wallet],
                   stdout = []\<rparr>)"
  | (no_account) wallet w1 w2 where
      "fromMnemonic sdk (env ''PRIVATE'') ''sei'' w0 = (Inr wallet, w1)"
      "getAccounts sdk wallet w1 = (Inr [], w2)"
      "mint_flow sdk env (init w0) =
         (Inl (TypeError ''Cannot destructure property address of undefined''),
          \<lparr>world = w2, calls = [FromMnemonic (env ''PRIVATE'') ''sei'', GetAccounts wallet],
           stdout = []\<rparr>)"
  | (gas_price_fails) wallet w1 acc accs w2 e where
      "fromMnemonic sdk (env ''PRIVATE'') ''sei'' w0 = (Inr wallet, w1)"
      "getAccounts sdk wallet w1 = (Inr (acc # accs), w2)"
      "gasPrice_fromString sdk ''0.1usei'' = Inl e"
      "mint_flow sdk env (init w0) =
         (Inl e, \<lparr>world = w2,
                   calls = [FromMnemonic (env ''PRIVATE'') ''sei'', GetAccounts wallet,
                            GasPriceFromString ''0.1usei''],
                   stdout = []\<rparr>)"
  | (connection_fails) wallet w1 acc accs w2 gp e w3 where
      "fromMnemonic sdk (env ''PRIVATE'') ''sei'' w0 = (Inr wallet, w1)"
      "getAccounts sdk wallet w1 = (Inr (acc # accs), w2)"
      "gasPrice_fromString sdk ''0.1usei'' = Inr gp"
      "connectWithSigner sdk (env ''RPC'') wallet gp w2 = (Inl e, w3)"
      "mint_flow sdk env (init w0) =
         (Inl e, \<lparr>world = w3,
                   calls = [FromMnemonic (env ''PRIVATE'') ''sei'', GetAccounts wallet,
                            GasPriceFromString ''0.1usei'',
                            ConnectWithSigner (env ''RPC'') wallet gp],
                   stdout = []\<rparr>)"
  | (execute_fails) wallet w1 acc accs w2 gp client w3 e w4 where
      "fromMnemonic sdk (env ''PRIVATE'') ''sei'' w0 = (Inr wallet, w1)"
      "getAccounts sdk wallet w1 = (Inr (acc # accs), w2)"
      "gasPrice_fromString sdk ''0.1usei'' = Inr gp"
      "connectWithSigner sdk (env ''RPC'') wallet gp w2 = (Inr client, w3)"
      "execute sdk client (address acc) (env ''CONTRACT_ADDR'') (mint_msg (address acc))
         Auto '''' mint_funds w3 = (Inl e, w4)"
      "mint_flow sdk env (init w0) =
         (Inl e, \<lparr>world = w4,
                   calls = [FromMnemonic (env ''PRIVATE'') ''sei'', GetAccounts wallet,
                            GasPriceFromString ''0.1usei'',
                            ConnectWithSigner (env ''RPC'') wallet gp,
                            Execute client (address acc) (env ''CONTRACT_ADDR'')
                              (mint_msg (address acc)) Auto '''' mint_funds],
                   stdout = []\<rparr>)"
  | (success) wallet w1 acc accs w2 gp client w3 r w4 where
      "fromMnemonic sdk (env ''PRIVATE'') ''sei'' w0 = (Inr wallet, w1)"
      "getAccounts sdk wallet w1 = (Inr (acc # accs), w2)"
      "gasPrice_fromString sdk ''0.1usei'' = Inr gp"
      "connectWithSigner sdk (env ''RPC'') wallet gp w2 = (Inr client, w3)"
      "execute sdk client (address acc) (env ''CONTRACT_ADDR'') (mint_msg (address acc))
         Auto '''' mint_funds w3 = (Inr r, w4)"
      "mint_flow sdk env (init w0) =
         (Inr (), \<lparr>world = w4,
                    calls = [FromMnemonic (env ''PRIVATE'') ''sei'', GetAccounts wallet,
                             GasPriceFromString ''0.1usei'',
                             ConnectWithSigner (env ''RPC'') wallet gp,
                             Execute client (address acc) (env ''CONTRACT_ADDR'')
                               (mint_msg (address acc)) Auto '''' mint_funds],
                    stdout = [JString (transactionHash r)]\<rparr>)"
proof -
  obtain r1 w1 where s1: "fromMnemonic sdk (env ''PRIVATE'') ''sei'' w0 = (r1, w1)"
    by (cases "fromMnemonic sdk (env ''PRIVATE'') ''sei'' w0")
  show thesis
  proof (cases r1)
    case (Inl e)
    with s1 show thesis by (intro derivation_fails [of e w1]) (simp_all add: flow_defs)
  next
    case (Inr wallet)
    note s1' = s1 [unfolded Inr]
    obtain r2 w2 where s2: "getAccounts sdk wallet w1 = (r2, w2)"
      by (cases "getAccounts sdk wallet w1")
    show thesis
    proof (cases r2)
      case (Inl e)
      with s1' s2 show thesis
        by (intro accounts_fail [of wallet w1 e w2]) (simp_all add: flow_defs)
    next
      case accounts: (Inr accounts)
      show thesis
      proof (cases accounts)
        case Nil
        with s1' s2 accounts show thesis
          by (intro no_account [of wallet w1 w2]) (simp_all add: flow_defs)
      next
        case (Cons acc accs)
        note s2' = s2 [unfolded accounts Cons]
        show thesis
        proof (cases "gasPrice_fromString sdk ''0.1usei''")
          case (Inl e)
          with s1' s2' show thesis
            by (intro gas_price_fails [of wallet w1 acc accs w2 e]) (simp_all add: flow_defs)
        next
          case gp: (Inr gp)
          obtain r3 w3 where s3: "connectWithSigner sdk (env ''RPC'') wallet gp w2 = (r3, w3)"
            by (cases "connectWithSigner sdk (env ''RPC'') wallet gp w2")
          show thesis
          proof (cases r3)
            case (Inl e)
            with s1' s2' gp s3 show thesis
              by (intro connection_fails [of wallet w1 acc accs w2 gp e w3])
                (simp_all add: flow_defs)
          next
            case client: (Inr client)
            note s3' = s3 [unfolded client]
            obtain r4 w4 where s4:
              "execute sdk client (address acc) (env ''CONTRACT_ADDR'') (mint_msg (address acc))
                 Auto '''' mint_funds w3 = (r4, w4)"
              by (cases "execute sdk client (address acc) (env ''CONTRACT_ADDR'')
                           (mint_msg (address acc)) Auto '''' mint_funds w3")
            show thesis
            proof (cases r4)
              case (Inl e)
              with s1' s2' gp s3' s4 show thesis
                by (intro execute_fails [of wallet w1 acc accs w2 gp client w3 e w4])
                  (simp_all add: flow_defs)
            next
              case (Inr r)
              with s1' s2' gp s3' s4 show thesis
                by (intro success [of wallet w1 acc accs w2 gp client w3 r w4])
                  (simp_all add: flow_defs)
            qed
          qed
        qed
      qed
    qed
  qed
qed

text \<open>
  A run of the query flow ends in one of three ways.
\<close>

lemma query_flow_cases:
  obtains
    (connection_fails) e w1 where
      "connect sdk (env ''RPC'') w0 = (Inl e, w1)"
      "query_flow sdk env (init w0) =
         (Inl e, \<lparr>world = w1, calls = [Connect (env ''RPC'')], stdout = []\<rparr>)"
  | (query_fails) client w1 e w2 where
      "connect sdk (env ''RPC'') w0 = (Inr client, w1)"
      "queryContractSmart sdk client (env ''CONTRACT_ADDR'') query_msg w1 = (Inl e, w2)"
      "query_flow sdk env (init w0) =
         (Inl e, \<lparr>world = w2,
                   calls = [Connect (env ''RPC''),
                            QueryContractSmart client (env ''CONTRACT_ADDR'') query_msg],
                   stdout = []\<rparr>)"
  | (success) client w1 R w2 where
      "connect sdk (env ''RPC'') w0 = (Inr client, w1)"
      "queryContractSmart sdk client (env ''CONTRACT_ADDR'') query_msg w1 = (Inr R, w2)"
      "query_flow sdk env (init w0) =
         (Inr (), \<lparr>world = w2,
                    calls = [Connect (env ''RPC''),
                             QueryContractSmart client (env ''CONTRACT_ADDR'') query_msg],
                    stdout = [R]\<rparr>)"
proof -
  obtain r1 w1 where s1: "connect sdk (env ''RPC'') w0 = (r1, w1)"
    by (cases "connect sdk (env ''RPC'') w0")
  show thesis
  proof (cases r1)
    case (Inl e)
    with s1 show thesis by (intro connection_fails [of e w1]) (simp_all add: flow_defs)
  next
    case (Inr client)
    note s1' = s1 [unfolded Inr]
    obtain r2 w2 where s2:
      "queryContractSmart sdk client (env ''CONTRACT_ADDR'') query_msg w1 = (r2, w2)"
      by (cases "queryContractSmart sdk client (env ''CONTRACT_ADDR'') query_msg w1")
    show thesis
    proof (cases r2)
      case (Inl e)
      with s1' s2 show thesis
        by (intro query_fails [of client w1 e w2]) (simp_all add: flow_defs)
    next
      case (Inr R)
      with s1' s2 show thesis
        by (intro success [of client w1 R w2]) (simp_all add: flow_defs)
    qed
  qed
qed

text \<open>
  Once the connection is open the flow makes the execute call, and the run ends as that
  call does: with its error, or with its transaction hash logged.
\<close>

lemma mint_flow_connected:
  assumes "fromMnemonic sdk (env ''PRIVATE'') ''sei'' w0 = (Inr wallet, w1)"
    and "getAccounts sdk wallet w1 = (Inr (acc # accs), w2)"
    and "gasPrice_fromString sdk ''0.1usei'' = Inr gp"
    and "connectWithSigner sdk (env ''RPC'') wallet gp w2 = (Inr client, w3)"
    and "execute sdk client (address acc) (env ''CONTRACT_ADDR'') (mint_msg (address acc))
           Auto '''' mint_funds w3 = (res, w4)"
  shows "mint_flow sdk env (init w0) =
           (case res of Inl e \<Rightarrow> Inl e | Inr r \<Rightarrow> Inr (),
            \<lparr>world = w4,
             calls = [FromMnemonic (env ''PRIVATE'') ''sei'', GetAccounts wallet,
                      GasPriceFromString ''0.1usei'', ConnectWithSigner (env ''RPC'') wallet gp,
                      Execute client (address acc) (env ''CONTRACT_ADDR'')
                        (mint_msg (address acc)) Auto '''' mint_funds],
             stdout = (case res of Inl e \<Rightarrow> [] | Inr r \<Rightarrow> [JString (transactionHash r)])\<rparr>)"
  using assms by (cases res) (simp_all add: flow_defs)

text \<open>The two checks of \<open>strict_sdk\<close>, and what it leaves to the SDK it wraps.\<close>

lemma strict_sdk_absent_phrase:
  "fromMnemonic (strict_sdk derr cerr sdk) None prefix w = (Inl derr, w)"
  by (simp add: strict_sdk_def)

lemma strict_sdk_absent_endpoint:
  "connectWithSigner (strict_sdk derr cerr sdk) None wallet gp w = (Inl cerr, w)"
  by (simp add: strict_sdk_def)

lemma strict_sdk_connected:
  "connectWithSigner (strict_sdk derr cerr sdk) endpoint wallet gp w = (Inr client, w')
     \<Longrightarrow> endpoint \<noteq> None"
  by (auto simp: strict_sdk_def split: option.splits)

lemma strict_sdk_derived:
  "fromMnemonic (strict_sdk derr cerr sdk) mnemonic prefix w = (Inr wallet, w')
     \<Longrightarrow> mnemonic \<noteq> None"
  by (auto simp: strict_sdk_def split: option.splits)

section \<open>The mint flow: the execute call\<close>

text \<open>
  Claim C1. In a run of the mint flow in which wallet derivation succeeds (the wallet is
  built and holds a first account) and the connection succeeds (which needs the gas
  price \<^verbatim>\<open>"0.1usei"\<close> parsed, as it is an argument of the connect call), the flow
  makes exactly one execute call, through the client connected with that gas price: its
  message is
  \<^verbatim>\<open>{mint: {extension: {}, owner: <address>, token_uri: "https://alpaca.com/alpaca.jpg"}}\<close>,
  its fee is \<^verbatim>\<open>"auto"\<close>, its memo is empty and its funds are
  \<^verbatim>\<open>[{denom: "usei", amount: "10000"}]\<close>. The call is made on the world the connection
  left: with \<open>(res, w4)\<close> what the SDK's \<^verbatim>\<open>execute\<close> returns there (the last
  hypothesis only names it), the run ends in the world \<open>w4\<close>, with the error of \<open>res\<close>
  or with its transaction hash logged, and its calls are the four of the set-up followed
  by this one.
\<close>

theorem mint_flow_execute_call:
  assumes "fromMnemonic sdk (env ''PRIVATE'') ''sei'' w0 = (Inr wallet, w1)"
    and "getAccounts sdk wallet w1 = (Inr (acc # accs), w2)"
    and "gasPrice_fromString sdk ''0.1usei'' = Inr gp"
    and "connectWithSigner sdk (env ''RPC'') wallet gp w2 = (Inr client, w3)"
    and "execute sdk client (address acc) (env ''CONTRACT_ADDR'')
           (JObject [(''mint'', JObject [(''extension'', JObject []),
                                         (''owner'', JString (address acc)),
                                         (''token_uri'', JString ''https://alpaca.com/alpaca.jpg'')])])
           Auto '''' [\<lparr>denom = ''usei'', amount = ''10000''\<rparr>] w3 = (res, w4)"
  shows "mint_flow sdk env (init w0) =
           (case res of Inl e \<Rightarrow> Inl e | Inr r \<Rightarrow> Inr (),
            \<lparr>world = w4,
             calls =
               [FromMnemonic (env ''PRIVATE'') ''sei'', GetAccounts wallet,
                GasPriceFromString ''0.1usei'', ConnectWithSigner (env ''RPC'') wallet gp,
                Execute client (address acc) (env ''CONTRACT_ADDR'')
                  (JObject [(''mint'', JObject [(''extension'', JObject []),
                                                (''owner'', JString (address acc)),
                                                (''token_uri'', JString ''https://alpaca.com/alpaca.jpg'')])])
                  Auto '''' [\<lparr>denom = ''usei'', amount = ''10000''\<rparr>]],
             stdout = (case res of Inl e \<Rightarrow> [] | Inr r \<Rightarrow> [JString (transactionHash r)])\<rparr>)
         \<and> filter is_execute (calls (snd (mint_flow sdk env (init w0)))) =
             [Execute client (address acc) (env ''CONTRACT_ADDR'')
                (JObject [(''mint'', JObject [(''extension'', JObject []),
                                              (''owner'', JString (address acc)),
                                              (''token_uri'', JString ''https://alpaca.com/alpaca.jpg'')])])
                Auto '''' [\<lparr>denom = ''usei'', amount = ''10000''\<rparr>]]"
proof -
  have run: "mint_flow sdk env (init w0) =
      (case res of Inl e \<Rightarrow> Inl e | Inr r \<Rightarrow> Inr (),
       \<lparr>world = w4,
        calls = [FromMnemonic (env ''PRIVATE'') ''sei'', GetAccounts wallet,
                 GasPriceFromString ''0.1usei'', ConnectWithSigner (env ''RPC'') wallet gp,
                 Execute client (address acc) (env ''CONTRACT_ADDR'')
                   (mint_msg (address acc)) Auto '''' mint_funds],
        stdout = (case res of Inl e \<Rightarrow> [] | Inr r \<Rightarrow> [JString (transactionHash r)])\<rparr>)"
    using assms by (intro mint_flow_connected) (simp_all add: mint_msg_def mint_funds_def)
  show ?thesis
    unfolding run by (simp add: mint_msg_def mint_funds_def)
qed

theorem mint_flow_execute_call_witness:
  "fromMnemonic (mock_sdk True [mock_owner]) (mock_env ''PRIVATE'') ''sei'' 0
     = (Inr ''abandon ability able'', 0)
   \<and> getAccounts (mock_sdk True [mock_owner]) ''abandon ability able'' 0
     = (Inr [mock_owner], 0)
   \<and> gasPrice_fromString (mock_sdk True [mock_owner]) ''0.1usei'' = Inr ''0.1usei''
   \<and> connectWithSigner (mock_sdk True [mock_owner]) (mock_env ''RPC'')
        ''abandon ability able'' ''0.1usei'' 0 = (Inr ''http://localhost:26657'', 1)
   \<and> execute (mock_sdk True [mock_owner]) ''http://localhost:26657'' (address mock_owner)
        (mock_env ''CONTRACT_ADDR'')
        (JObject [(''mint'', JObject [(''extension'', JObject []),
                                      (''owner'', JString (address mock_owner)),
                                      (''token_uri'', JString ''https://alpaca.com/alpaca.jpg'')])])
        Auto '''' [\<lparr>denom = ''usei'', amount = ''10000''\<rparr>] 1
       = (Inr \<lparr>transactionHash = ''A1B2C3''\<rparr>, 2)
   \<and> mint_flow (mock_sdk True [mock_owner]) mock_env (init 0) =
       (Inr (),
        \<lparr>world = 2,
         calls =
           [FromMnemonic (Some ''abandon ability able'') ''sei'',
            GetAccounts ''abandon ability able'', GasPriceFromString ''0.1usei'',
            ConnectWithSigner (Some ''http://localhost:26657'') ''abandon ability able''
              ''0.1usei'',
            Execute ''http://localhost:26657'' ''sei1owner'' (Some ''sei1contract'')
              (JObject [(''mint'', JObject [(''extension'', JObject []),
                                            (''owner'', JString ''sei1owner''),
                                            (''token_uri'', JString ''https://alpaca.com/alpaca.jpg'')])])
              Auto '''' [\<lparr>denom = ''usei'', amount = ''10000''\<rparr>]],
         stdout = [JString ''A1B2C3'']\<rparr>)"
  using mint_flow_execute_call [where sdk = "mock_sdk True [mock_owner]" and env = mock_env
      and ?w0.0 = 0 and wallet = "''abandon ability able''" and ?w1.0 = 0
      and acc = mock_owner and accs = "[]" and ?w2.0 = 0 and gp = "''0.1usei''"
      and client = "''http://localhost:26657''" and ?w3.0 = 1
      and res = "Inr \<lparr>transactionHash = ''A1B2C3''\<rparr>" and ?w4.0 = 2]
  by (simp add: mock_defs)

section \<open>The mint flow: absent inputs\<close>

text \<open>
  Claim C2, as stated, fails: the flow has no check of its inputs. With the contract
  identifier absent and the rest present, the mocked run opens the connection and makes
  the execute call with an undefined contract; both calls reach the endpoint.
\<close>

theorem mint_flow_absent_contract_counterexample:
  "(mock_env(''CONTRACT_ADDR'' := None)) ''CONTRACT_ADDR'' = None
   \<and> filter is_network_call
       (calls (snd (mint_flow (mock_sdk True [mock_owner])
                      (mock_env(''CONTRACT_ADDR'' := None)) (init 0)))) =
       [ConnectWithSigner (Some ''http://localhost:26657'') ''abandon ability able'' ''0.1usei'',
        Execute ''http://localhost:26657'' ''sei1owner'' None (mint_msg ''sei1owner'')
          Auto '''' mint_funds]"
  by (simp add: flow_defs mock_defs)

text \<open>
  Claim C2, amended. In every run of the mint flow in which the secret phrase or the RPC
  endpoint URL is absent, the flow fails before any request is sent to an endpoint. The
  script passes the absent value on and the SDK (\<open>strict_sdk\<close>) rejects it: an absent
  phrase at wallet derivation, the first and only call of the run; an absent endpoint at
  the connect call, which is the last call of the run and leaves the world as the set-up
  left it. An absent contract identifier is not detected before the network: the script
  reads it only for the execute call, so when the set-up and the connection succeed the
  flow sends the connect request, then the execute request with an undefined contract,
  and ends as that execute call does. The fee price is the constant \<^verbatim>\<open>"0.1usei"\<close> of
  the script and is never absent.
\<close>

theorem mint_flow_absent_inputs:
  fixes sdk :: "('w, 'wallet, 'gp, 'client, 'qclient) sdk"
    and derr cerr :: error
  defines "S \<equiv> strict_sdk derr cerr sdk"
  shows
   "(env ''PRIVATE'' = None \<or> env ''RPC'' = None \<longrightarrow>
       (\<exists>e. fst (mint_flow S env (init w0)) = Inl e)
       \<and> filter is_request (calls (snd (mint_flow S env (init w0)))) = [])
    \<and> (env ''PRIVATE'' = None \<longrightarrow>
       mint_flow S env (init w0) =
         (Inl derr, \<lparr>world = w0, calls = [FromMnemonic None ''sei''], stdout = []\<rparr>))
    \<and> (env ''RPC'' = None \<longrightarrow>
       fromMnemonic S (env ''PRIVATE'') ''sei'' w0 = (Inr wallet, w1) \<longrightarrow>
       getAccounts S wallet w1 = (Inr (acc # accs), w2) \<longrightarrow>
       gasPrice_fromString S ''0.1usei'' = Inr gp \<longrightarrow>
       mint_flow S env (init w0) =
         (Inl cerr,
          \<lparr>world = w2,
           calls = [FromMnemonic (env ''PRIVATE'') ''sei'', GetAccounts wallet,
                    GasPriceFromString ''0.1usei'', ConnectWithSigner None wallet gp],
           stdout = []\<rparr>))
    \<and> (env ''CONTRACT_ADDR'' = None \<longrightarrow>
       fromMnemonic S (env ''PRIVATE'') ''sei'' w0 = (Inr wallet, w1) \<longrightarrow>
       getAccounts S wallet w1 = (Inr (acc # accs), w2) \<longrightarrow>
       gasPrice_fromString S ''0.1usei'' = Inr gp \<longrightarrow>
       connectWithSigner S (env ''RPC'') wallet gp w2 = (Inr client, w3) \<longrightarrow>
       execute S client (address acc) None (mint_msg (address acc)) Auto '''' mint_funds w3
         = (res, w4) \<longrightarrow>
       mint_flow S env (init w0) =
         (case res of Inl e \<Rightarrow> Inl e | Inr r \<Rightarrow> Inr (),
          \<lparr>world = w4,
           calls = [FromMnemonic (env ''PRIVATE'') ''sei'', GetAccounts wallet,
                    GasPriceFromString ''0.1usei'', ConnectWithSigner (env ''RPC'') wallet gp,
                    Execute client (address acc) None (mint_msg (address acc)) Auto ''''
                      mint_funds],
           stdout = (case res of Inl e \<Rightarrow> [] | Inr r \<Rightarrow> [JString (transactionHash r)])\<rparr>)
       \<and> filter is_request (calls (snd (mint_flow S env (init w0)))) =
           [ConnectWithSigner (env ''RPC'') wallet gp,
            Execute client (address acc) None (mint_msg (address acc)) Auto '''' mint_funds])"
proof -
  have no_request: "(\<exists>e. fst (mint_flow S env (init w0)) = Inl e)
      \<and> filter is_request (calls (snd (mint_flow S env (init w0)))) = []"
    if absent: "env ''PRIVATE'' = None \<or> env ''RPC'' = None"
  proof (cases rule: mint_flow_cases [of S env w0])
    case (derivation_fails e w1)
    then show ?thesis by simp
  next
    case (accounts_fail wallet w1 e w2)
    then show ?thesis by simp
  next
    case (no_account wallet w1 w2)
    then show ?thesis by simp
  next
    case (gas_price_fails wallet w1 acc accs w2 e)
    then show ?thesis by simp
  next
    case (connection_fails wallet w1 acc accs w2 gp e w3)
    from this(1) have "env ''PRIVATE'' \<noteq> None"
      unfolding S_def by (rule strict_sdk_derived)
    with absent have "env ''RPC'' = None" by simp
    with connection_fails show ?thesis by simp
  next
    case (execute_fails wallet w1 acc accs w2 gp client w3 e w4)
    from this(1) have "env ''PRIVATE'' \<noteq> None"
      unfolding S_def by (rule strict_sdk_derived)
    moreover from execute_fails(4) have "env ''RPC'' \<noteq> None"
      unfolding S_def by (rule strict_sdk_connected)
    ultimately have False using absent by auto
    then show ?thesis ..
  next
    case (success wallet w1 acc accs w2 gp client w3 r w4)
    from this(1) have "env ''PRIVATE'' \<noteq> None"
      unfolding S_def by (rule strict_sdk_derived)
    moreover from success(4) have "env ''RPC'' \<noteq> None"
      unfolding S_def by (rule strict_sdk_connected)
    ultimately have False using absent by auto
    then show ?thesis ..
  qed
  have absent_phrase: "mint_flow S env (init w0) =
      (Inl derr, \<lparr>world = w0, calls = [FromMnemonic None ''sei''], stdout = []\<rparr>)"
    if "env ''PRIVATE'' = None"
  proof -
    have "fromMnemonic S None ''sei'' w0 = (Inl derr, w0)"
      unfolding S_def by (rule strict_sdk_absent_phrase)
    with that show ?thesis by (simp add: flow_defs)
  qed
  have absent_endpoint: "mint_flow S env (init w0) =
      (Inl cerr,
       \<lparr>world = w2,
        calls = [FromMnemonic (env ''PRIVATE'') ''sei'', GetAccounts wallet,
                 GasPriceFromString ''0.1usei'', ConnectWithSigner None wallet gp],
        stdout = []\<rparr>)"
    if "env ''RPC'' = None"
      and "fromMnemonic S (env ''PRIVATE'') ''sei'' w0 = (Inr wallet, w1)"
      and "getAccounts S wallet w1 = (Inr (acc # accs), w2)"
      and "gasPrice_fromString S ''0.1usei'' = Inr gp"
  proof -
    have "connectWithSigner S None wallet gp w2 = (Inl cerr, w2)"
      unfolding S_def by (rule strict_sdk_absent_endpoint)
    with that show ?thesis by (simp add: flow_defs)
  qed
  have absent_contract: "mint_flow S env (init w0) =
      (case res of Inl e \<Rightarrow> Inl e | Inr r \<Rightarrow> Inr (),
       \<lparr>world = w4,
        calls = [FromMnemonic (env ''PRIVATE'') ''sei'', GetAccounts wallet,
                 GasPriceFromString ''0.1usei'', ConnectWithSigner (env ''RPC'') wallet gp,
                 Execute client (address acc) None (mint_msg (address acc)) Auto ''''
                   mint_funds],
        stdout = (case res of Inl e \<Rightarrow> [] | Inr r \<Rightarrow> [JString (transactionHash r)])\<rparr>)
      \<and> filter is_request (calls (snd (mint_flow S env (init w0)))) =
          [ConnectWithSigner (env ''RPC'') wallet gp,
           Execute client (address acc) None (mint_msg (address acc)) Auto '''' mint_funds]"
    if contract: "env ''CONTRACT_ADDR'' = None"
      and s1: "fromMnemonic S (env ''PRIVATE'') ''sei'' w0 = (Inr wallet, w1)"
      and s2: "getAccounts S wallet w1 = (Inr (acc # accs), w2)"
      and s3: "gasPrice_fromString S ''0.1usei'' = Inr gp"
      and s4: "connectWithSigner S (env ''RPC'') wallet gp w2 = (Inr client, w3)"
      and s5: "execute S client (address acc) None (mint_msg (address acc)) Auto ''''
                 mint_funds w3 = (res, w4)"
  proof -
    from s4 obtain url where url: "env ''RPC'' = Some url"
      unfolding S_def by (auto dest: strict_sdk_connected)
    have run: "mint_flow S env (init w0) =
        (case res of Inl e \<Rightarrow> Inl e | Inr r \<Rightarrow> Inr (),
         \<lparr>world = w4,
          calls = [FromMnemonic (env ''PRIVATE'') ''sei'', GetAccounts wallet,
                   GasPriceFromString ''0.1usei'', ConnectWithSigner (env ''RPC'') wallet gp,
                   Execute client (address acc) (env ''CONTRACT_ADDR'')
                     (mint_msg (address acc)) Auto '''' mint_funds],
          stdout = (case res of Inl e \<Rightarrow> [] | Inr r \<Rightarrow> [JString (transactionHash r)])\<rparr>)"
      using s1 s2 s3 s4 s5 contract by (intro mint_flow_connected) simp_all
    show ?thesis unfolding run by (simp add: contract url)
  qed
  show ?thesis
    using no_request absent_phrase absent_endpoint absent_contract by blast
qed

theorem mint_flow_absent_inputs_witness:
  "((mock_env(''PRIVATE'' := None)) ''PRIVATE'' = None
    \<and> mint_flow (strict_sdk (Error ''Invalid mnemonic format'')
                    (TypeError ''endpoint is undefined'') (mock_sdk True [mock_owner]))
        (mock_env(''PRIVATE'' := None)) (init 0) =
        (Inl (Error ''Invalid mnemonic format''),
         \<lparr>world = 0, calls = [FromMnemonic None ''sei''], stdout = []\<rparr>))
   \<and> ((mock_env(''RPC'' := None)) ''RPC'' = None
    \<and> mint_flow (strict_sdk (Error ''Invalid mnemonic format'')
                    (TypeError ''endpoint is undefined'') (mock_sdk True [mock_owner]))
        (mock_env(''RPC'' := None)) (init 0) =
        (Inl (TypeError ''endpoint is undefined''),
         \<lparr>world = 0,
          calls = [FromMnemonic (Some ''abandon ability able'') ''sei'',
                   GetAccounts ''abandon ability able'', GasPriceFromString ''0.1usei'',
                   ConnectWithSigner None ''abandon ability able'' ''0.1usei''],
          stdout = []\<rparr>)
    \<and> filter is_request
        (calls (snd (mint_flow (strict_sdk (Error ''Invalid mnemonic format'')
                                  (TypeError ''endpoint is undefined'')
                                  (mock_sdk True [mock_owner]))
                       (mock_env(''RPC'' := None)) (init 0)))) = [])
   \<and> ((mock_env(''CONTRACT_ADDR'' := None)) ''CONTRACT_ADDR'' = None
    \<and> mint_flow (strict_sdk (Error ''Invalid mnemonic format'')
                    (TypeError ''endpoint is undefined'') (mock_sdk True [mock_owner]))
        (mock_env(''CONTRACT_ADDR'' := None)) (init 0) =
        (Inl (Error ''contract address is undefined''),
         \<lparr>world = 2,
          calls = [FromMnemonic (Some ''abandon ability able'') ''sei'',
                   GetAccounts ''abandon ability able'', GasPriceFromString ''0.1usei'',
                   ConnectWithSigner (Some ''http://localhost:26657'')
                     ''abandon ability able'' ''0.1usei'',
                   Execute ''http://localhost:26657'' ''sei1owner'' None
                     (mint_msg ''sei1owner'') Auto '''' mint_funds],
          stdout = []\<rparr>))"
  using mint_flow_absent_inputs [where env = "mock_env(''PRIVATE'' := None)"
      and derr = "Error ''Invalid mnemonic format''"
      and cerr = "TypeError ''endpoint is undefined''"
      and sdk = "mock_sdk True [mock_owner]" and ?w0.0 = "0::nat"]
    mint_flow_absent_inputs [where env = "mock_env(''RPC'' := None)"
      and derr = "Error ''Invalid mnemonic format''"
      and cerr = "TypeError ''endpoint is undefined''"
      and sdk = "mock_sdk True [mock_owner]" and ?w0.0 = 0
      and wallet = "''abandon ability able''" and ?w1.0 = 0
      and acc = mock_owner and accs = "[]" and ?w2.0 = 0 and gp = "''0.1usei''"]
    mint_flow_absent_inputs [where env = "mock_env(''CONTRACT_ADDR'' := None)"
      and derr = "Error ''Invalid mnemonic format''"
      and cerr = "TypeError ''endpoint is undefined''"
      and sdk = "mock_sdk True [mock_owner]" and ?w0.0 = 0
      and wallet = "''abandon ability able''" and ?w1.0 = 0
      and acc = mock_owner and accs = "[]" and ?w2.0 = 0 and gp = "''0.1usei''"
      and client = "''http://localhost:26657''" and ?w3.0 = 1
      and res = "Inl (Error ''contract address is undefined'')" and ?w4.0 = 2]
  by (simp add: flow_defs mock_defs strict_sdk_def)

section \<open>The query flow\<close>

text \<open>
  Claim C3. In a run of the query flow in which the connection succeeds and the contract
  answers the \<^verbatim>\<open>{num_tokens: {}}\<close> query with \<open>R\<close>, the flow logs exactly \<open>R\<close>, its
  only calls are the connect and the query, and it makes no execute call.
\<close>

theorem query_flow_emits_response:
  assumes "connect sdk (env ''RPC'') w0 = (Inr client, w1)"
    and "queryContractSmart sdk client (env ''CONTRACT_ADDR'')
           (JObject [(''num_tokens'', JObject [])]) w1 = (Inr R, w2)"
  shows "query_flow sdk env (init w0) =
           (Inr (), \<lparr>world = w2,
                     calls = [Connect (env ''RPC''),
                              QueryContractSmart client (env ''CONTRACT_ADDR'')
                                (JObject [(''num_tokens'', JObject [])])],
                     stdout = [R]\<rparr>)
         \<and> filter is_execute (calls (snd (query_flow sdk env (init w0)))) = []"
  using assms by (simp add: flow_defs query_msg_def)

theorem query_flow_emits_response_witness:
  "connect (mock_sdk True []) (mock_env ''RPC'') 0 = (Inr ''http://localhost:26657'', 1)
   \<and> queryContractSmart (mock_sdk True []) ''http://localhost:26657''
        (mock_env ''CONTRACT_ADDR'') (JObject [(''num_tokens'', JObject [])]) 1
       = (Inr (JObject [(''count'', JNumber 5)]), 2)
   \<and> stdout (snd (query_flow (mock_sdk True []) mock_env (init 0)))
       = [JObject [(''count'', JNumber 5)]]
   \<and> filter is_execute (calls (snd (query_flow (mock_sdk True []) mock_env (init 0)))) = []"
  using query_flow_emits_response [of "mock_sdk True []" mock_env 0
      "''http://localhost:26657''" 1 "JObject [(''count'', JNumber 5)]" 2]
  by (simp add: mock_defs)

section \<open>The mint flow: failures\<close>

text \<open>
  Claim C4. In every run of the mint flow in which the secret phrase is absent, the flow
  fails at once, at account derivation: the phrase is the argument of the first
  statement of the script, the derivation (\<open>strict_sdk\<close>) rejects it, and nothing
  catches the error. \<^verbatim>\<open>fromMnemonic\<close> is the only SDK call of the run, the world is
  as it was, and no network call is made.
\<close>

theorem mint_flow_missing_phrase:
  assumes "env ''PRIVATE'' = None"
  shows "mint_flow (strict_sdk derr cerr sdk) env (init w0) =
           (Inl derr, \<lparr>world = w0, calls = [FromMnemonic None ''sei''], stdout = []\<rparr>)
         \<and> filter is_network_call
             (calls (snd (mint_flow (strict_sdk derr cerr sdk) env (init w0)))) = []"
proof -
  have "fromMnemonic (strict_sdk derr cerr sdk) (env ''PRIVATE'') ''sei'' w0 = (Inl derr, w0)"
    using assms by (simp add: strict_sdk_absent_phrase)
  then have "mint_flow (strict_sdk derr cerr sdk) env (init w0) =
      (Inl derr, \<lparr>world = w0, calls = [FromMnemonic None ''sei''], stdout = []\<rparr>)"
    using assms by (simp add: flow_defs)
  then show ?thesis by simp
qed

theorem mint_flow_missing_phrase_witness:
  "(mock_env(''PRIVATE'' := None)) ''PRIVATE'' = None
   \<and> mint_flow (strict_sdk (Error ''Invalid mnemonic format'')
                   (TypeError ''endpoint is undefined'') (mock_sdk True [mock_owner]))
       (mock_env(''PRIVATE'' := None)) (init 0) =
       (Inl (Error ''Invalid mnemonic format''),
        \<lparr>world = 0, calls = [FromMnemonic None ''sei''], stdout = []\<rparr>)"
  using mint_flow_missing_phrase [where env = "mock_env(''PRIVATE'' := None)"
      and derr = "Error ''Invalid mnemonic format''"
      and cerr = "TypeError ''endpoint is undefined''"
      and sdk = "mock_sdk True [mock_owner]" and ?w0.0 = "0::nat"]
  by (simp add: mock_defs)

text \<open>
  Claim C5. In a run of the mint flow in which the connect call fails, the flow ends with
  the error of that call, and no execute call is made: the connect call is the last SDK
  call of the run.
\<close>

theorem mint_flow_connection_error:
  assumes "fromMnemonic sdk (env ''PRIVATE'') ''sei'' w0 = (Inr wallet, w1)"
    and "getAccounts sdk wallet w1 = (Inr (acc # accs), w2)"
    and "gasPrice_fromString sdk ''0.1usei'' = Inr gp"
    and "connectWithSigner sdk (env ''RPC'') wallet gp w2 = (Inl e, w3)"
  shows "mint_flow sdk env (init w0) =
           (Inl e, \<lparr>world = w3,
                     calls = [FromMnemonic (env ''PRIVATE'') ''sei'', GetAccounts wallet,
                              GasPriceFromString ''0.1usei'',
                              ConnectWithSigner (env ''RPC'') wallet gp],
                     stdout = []\<rparr>)
         \<and> filter is_execute (calls (snd (mint_flow sdk env (init w0)))) = []"
  using assms by (simp add: flow_defs)

theorem mint_flow_connection_error_witness:
  "fromMnemonic (mock_sdk False [mock_owner]) (mock_env ''PRIVATE'') ''sei'' 0
     = (Inr ''abandon ability able'', 0)
   \<and> getAccounts (mock_sdk False [mock_owner]) ''abandon ability able'' 0
     = (Inr [mock_owner], 0)
   \<and> gasPrice_fromString (mock_sdk False [mock_owner]) ''0.1usei'' = Inr ''0.1usei''
   \<and> connectWithSigner (mock_sdk False [mock_owner]) (mock_env ''RPC'')
        ''abandon ability able'' ''0.1usei'' 0 = (Inl (Error ''fetch failed''), 1)
   \<and> fst (mint_flow (mock_sdk False [mock_owner]) mock_env (init 0))
       = Inl (Error ''fetch failed'')
   \<and> filter is_execute
       (calls (snd (mint_flow (mock_sdk False [mock_owner]) mock_env (init 0)))) = []"
  using mint_flow_connection_error [of "mock_sdk False [mock_owner]" mock_env 0
      "''abandon ability able''" 0 mock_owner "[]" 0 "''0.1usei''"
      "Error ''fetch failed''" 1]
  by (simp add: mock_defs)

text \<open>
  Claim C10. When the wallet's \<^verbatim>\<open>getAccounts\<close> returns an empty list, the mint flow
  fails with the TypeError of the destructuring: the gas price is not parsed, no
  connection is opened and no invocation is made.
\<close>

theorem mint_flow_no_account:
  assumes "fromMnemonic sdk (env ''PRIVATE'') ''sei'' w0 = (Inr wallet, w1)"
    and "getAccounts sdk wallet w1 = (Inr [], w2)"
  shows "mint_flow sdk env (init w0) =
           (Inl (TypeError ''Cannot destructure property address of undefined''),
            \<lparr>world = w2, calls = [FromMnemonic (env ''PRIVATE'') ''sei'', GetAccounts wallet],
             stdout = []\<rparr>)
         \<and> filter is_network_call (calls (snd (mint_flow sdk env (init w0)))) = []"
  using assms by (simp add: flow_defs)

theorem mint_flow_no_account_witness:
  "fromMnemonic (mock_sdk True []) (mock_env ''PRIVATE'') ''sei'' 0
     = (Inr ''abandon ability able'', 0)
   \<and> getAccounts (mock_sdk True []) ''abandon ability able'' 0 = (Inr [], 0)
   \<and> mint_flow (mock_sdk True []) mock_env (init 0) =
       (Inl (TypeError ''Cannot destructure property address of undefined''),
        \<lparr>world = 0,
         calls = [FromMnemonic (Some ''abandon ability able'') ''sei'',
                  GetAccounts ''abandon ability able''],
         stdout = []\<rparr>)"
  using mint_flow_no_account [of "mock_sdk True []" mock_env 0 "''abandon ability able''" 0 0]
  by (simp add: mock_defs)

section \<open>Both flows: one invocation, one line of output\<close>

text \<open>
  Claim C6. In every run of either flow, at most one invocation of the contract (an
  execute or a query call) is made: nothing is retried and nothing is fetched in parts.
\<close>

theorem flows_single_invocation:
  "length (filter is_invocation (calls (snd (mint_flow sdk env (init w))))) \<le> 1
   \<and> length (filter is_invocation (calls (snd (query_flow sdk env (init w))))) \<le> 1"
proof
  show "length (filter is_invocation (calls (snd (mint_flow sdk env (init w))))) \<le> 1"
    by (cases rule: mint_flow_cases [of sdk env w]) (simp_all add: is_invocation_def)
  show "length (filter is_invocation (calls (snd (query_flow sdk env (init w))))) \<le> 1"
    by (cases rule: query_flow_cases [of sdk env w]) (simp_all add: is_invocation_def)
qed

text \<open>
  Claim C8. A run of the mint flow that succeeds has logged exactly one value, the
  \<^verbatim>\<open>transactionHash\<close> of the result that its execute call returned; a run of the query
  flow that succeeds has logged exactly one value, the result that its query call
  returned.
\<close>

theorem flows_print_result:
  "(mint_flow sdk env (init w0) = (Inr u, st) \<longrightarrow>
      (\<exists>wallet w1 acc accs w2 gp client w3 r.
         fromMnemonic sdk (env ''PRIVATE'') ''sei'' w0 = (Inr wallet, w1)
       \<and> getAccounts sdk wallet w1 = (Inr (acc # accs), w2)
       \<and> gasPrice_fromString sdk ''0.1usei'' = Inr gp
       \<and> connectWithSigner sdk (env ''RPC'') wallet gp w2 = (Inr client, w3)
       \<and> execute sdk client (address acc) (env ''CONTRACT_ADDR'') (mint_msg (address acc))
            Auto '''' mint_funds w3 = (Inr r, world st)
       \<and> stdout st = [JString (transactionHash r)]))
   \<and> (query_flow sdk env (init w0) = (Inr u', st') \<longrightarrow>
      (\<exists>client w1 R.
         connect sdk (env ''RPC'') w0 = (Inr client, w1)
       \<and> queryContractSmart sdk client (env ''CONTRACT_ADDR'') query_msg w1
            = (Inr R, world st')
       \<and> stdout st' = [R]))"
proof
  show "mint_flow sdk env (init w0) = (Inr u, st) \<longrightarrow>
      (\<exists>wallet w1 acc accs w2 gp client w3 r.
         fromMnemonic sdk (env ''PRIVATE'') ''sei'' w0 = (Inr wallet, w1)
       \<and> getAccounts sdk wallet w1 = (Inr (acc # accs), w2)
       \<and> gasPrice_fromString sdk ''0.1usei'' = Inr gp
       \<and> connectWithSigner sdk (env ''RPC'') wallet gp w2 = (Inr client, w3)
       \<and> execute sdk client (address acc) (env ''CONTRACT_ADDR'') (mint_msg (address acc))
            Auto '''' mint_funds w3 = (Inr r, world st)
       \<and> stdout st = [JString (transactionHash r)])"
    by (cases rule: mint_flow_cases [of sdk env w0]) auto
  show "query_flow sdk env (init w0) = (Inr u', st') \<longrightarrow>
      (\<exists>client w1 R.
         connect sdk (env ''RPC'') w0 = (Inr client, w1)
       \<and> queryContractSmart sdk client (env ''CONTRACT_ADDR'') query_msg w1
            = (Inr R, world st')
       \<and> stdout st' = [R])"
    by (cases rule: query_flow_cases [of sdk env w0]) auto
qed

theorem flows_print_result_witness:
  "mint_flow (mock_sdk True [mock_owner]) mock_env (init 0) =
     (Inr (), \<lparr>world = 2,
               calls = calls (snd (mint_flow (mock_sdk True [mock_owner]) mock_env (init 0))),
               stdout = [JString ''A1B2C3'']\<rparr>)
   \<and> query_flow (mock_sdk True [mock_owner]) mock_env (init 0) =
     (Inr (), \<lparr>world = 2,
               calls = calls (snd (query_flow (mock_sdk True [mock_owner]) mock_env (init 0))),
               stdout = [JObject [(''count'', JNumber 5)]]\<rparr>)"
  using flows_print_result [of "mock_sdk True [mock_owner]" mock_env 0 "()"
      "snd (mint_flow (mock_sdk True [mock_owner]) mock_env (init 0))" "()"
      "snd (query_flow (mock_sdk True [mock_owner]) mock_env (init 0))"]
  by (simp add: flow_defs mock_defs)

text \<open>
  Claim C9. In every run of the mint flow, an execute call has as its sender the address
  of the first account that \<^verbatim>\<open>getAccounts\<close> returned, and the \<^verbatim>\<open>owner\<close> field of its
  message is that same address.
\<close>

theorem mint_flow_sender_is_owner:
  assumes "Execute client sender contract msg f memo funds
             \<in> set (calls (snd (mint_flow sdk env (init w0))))"
  shows "\<exists>wallet w1 acc accs w2.
           fromMnemonic sdk (env ''PRIVATE'') ''sei'' w0 = (Inr wallet, w1)
         \<and> getAccounts sdk wallet w1 = (Inr (acc # accs), w2)
         \<and> sender = address acc
         \<and> msg = JObject [(''mint'', JObject [(''extension'', JObject []),
                                               (''owner'', JString sender),
                                               (''token_uri'', JString ''https://alpaca.com/alpaca.jpg'')])]"
  using assms
  by (cases rule: mint_flow_cases [of sdk env w0]) (auto simp: mint_msg_def)

theorem mint_flow_sender_is_owner_witness:
  "Execute ''http://localhost:26657'' ''sei1owner'' (Some ''sei1contract'')
     (JObject [(''mint'', JObject [(''extension'', JObject []),
                                   (''owner'', JString ''sei1owner''),
                                   (''token_uri'', JString ''https://alpaca.com/alpaca.jpg'')])])
     Auto '''' mint_funds
     \<in> set (calls (snd (mint_flow (mock_sdk True [mock_owner]) mock_env (init 0))))
   \<and> getAccounts (mock_sdk True [mock_owner]) ''abandon ability able'' 0
       = (Inr [mock_owner], 0)
   \<and> ''sei1owner'' = address mock_owner"
  using mint_flow_sender_is_owner [of "''http://localhost:26657''" "''sei1owner''"
      "Some ''sei1contract''"
      "JObject [(''mint'', JObject [(''extension'', JObject []),
                                    (''owner'', JString ''sei1owner''),
                                    (''token_uri'', JString ''https://alpaca.com/alpaca.jpg'')])]"
      Auto "''''" mint_funds "mock_sdk True [mock_owner]" mock_env 0]
  by (simp add: flow_defs mock_defs)

end
